theory Spec2Isabelle
  imports Complex_Main
begin

section \<open>Python values\<close>

text \<open>
  The scoring engine computes with Python floats. They are idealised here as exact
  rationals: sums, products and comparisons are those of \<open>rat\<close>, and rounding to a
  number of decimals is round-half-to-even on the exact value. A Python \<open>str\<close> is a
  sequence of Unicode code points, modelled as a list of naturals, so that \<open>len\<close>
  counts code points. Dictionary keys and enum-like strings, which are ASCII in the
  source, stay HOL strings.
\<close>

type_synonym ustr = "nat list"

definition cp :: "string \<Rightarrow> ustr" where
  "cp s = map of_char s"

datatype error = TypeError | ZeroDivisionError | AttributeError

text \<open>
  A value found in a score dictionary: a number (\<open>int\<close> or \<open>float\<close>), a \<open>bool\<close>
  (a subclass of \<open>int\<close> in Python, with \<open>True == 1\<close>), or anything else that JSON
  can carry (a string, \<open>null\<close>, a list, an object).
\<close>

datatype pyval = PNum rat | PBool bool | POther

fun num_of :: "pyval \<Rightarrow> rat option" where
  "num_of (PNum x) = Some x"
| "num_of (PBool b) = Some (if b then 1 else 0)"
| "num_of POther = None"

text \<open>
  A dictionary with string keys, in insertion order. \<open>d.get(k, default)\<close> and
  \<open>d.setdefault(k, v)\<close>:
\<close>

type_synonym pydict = "(string \<times> pyval) list"

definition dict_get :: "pydict \<Rightarrow> string \<Rightarrow> pyval \<Rightarrow> pyval" where
  "dict_get d k dflt = (case map_of d k of None \<Rightarrow> dflt | Some v \<Rightarrow> v)"

definition setdefault :: "pydict \<Rightarrow> string \<Rightarrow> pyval \<Rightarrow> pydict" where
  "setdefault d k v = (if k \<in> fst ` set d then d else d @ [(k, v)])"

text \<open>\<open>round(x, nd)\<close>: the nearest multiple of \<open>10^-nd\<close>, ties to the even one.\<close>

definition py_round :: "nat \<Rightarrow> rat \<Rightarrow> rat" where
  "py_round nd x =
     (let s = 10 ^ nd; y = x * s; f = \<lfloor>y\<rfloor>; d = y - of_int f
      in (if d < 1 / 2 then of_int f
          else if 1 / 2 < d then of_int (f + 1)
          else if even f then of_int f else of_int (f + 1)) / s)"


section \<open>The feature record (the dictionary returned by \<open>analyze\<close>)\<close>

record features =
  char_count :: int
  char_utilization :: rat
  word_count :: int
  line_count :: int
  first_line :: ustr
  has_hook :: bool
  has_question :: bool
  question_count :: int
  hashtag_count :: int
  hashtags :: "ustr list"
  has_url :: bool
  has_media :: bool
  lang :: string
  has_cta :: bool
  cta_count :: int
  power_word_count :: int
  power_words_found :: "ustr list"
  has_numbers :: bool
  has_list_format :: bool
  emoji_count :: int


section \<open>The Python runtime's character tables\<close>

text \<open>
  \<open>str.strip\<close>, \<open>str.split\<close>, \<open>str.lower\<close> and the regular-expression classes
  \<open>\s\<close>, \<open>\w\<close>, \<open>\d\<close> consult the Unicode tables of the Python runtime, which are
  not part of the repository. The analyzer takes them as a parameter: \<open>isspace\<close> is
  \<open>str.isspace\<close> (also \<open>\s\<close>), \<open>isword\<close> is the class \<open>\w\<close>, \<open>isdigit\<close> the class
  \<open>\d\<close>, and \<open>lower\<close> is \<open>str.lower\<close> on a whole string.
\<close>

record runtime =
  isspace :: "nat \<Rightarrow> bool"
  isword :: "nat \<Rightarrow> bool"
  isdigit :: "nat \<Rightarrow> bool"
  lower :: "ustr \<Rightarrow> ustr"

text \<open>
  A concrete runtime for evaluation: Python's whitespace table in full, and its
  classification and case mapping of the Basic Latin block; any other code point is
  a caseless symbol that is neither a digit nor a word character (which is how Python
  treats the pictographs U+1F300 to U+1FAFF).
\<close>

definition basic_isspace :: "nat \<Rightarrow> bool" where
  "basic_isspace c =
     ((0x09 \<le> c \<and> c \<le> 0x0D) \<or> (0x1C \<le> c \<and> c \<le> 0x20) \<or> c = 0x85 \<or> c = 0xA0
      \<or> c = 0x1680 \<or> (0x2000 \<le> c \<and> c \<le> 0x200A) \<or> c = 0x2028 \<or> c = 0x2029
      \<or> c = 0x202F \<or> c = 0x205F \<or> c = 0x3000)"

definition basic_isdigit :: "nat \<Rightarrow> bool" where
  "basic_isdigit c = (0x30 \<le> c \<and> c \<le> 0x39)"

definition basic_isword :: "nat \<Rightarrow> bool" where
  "basic_isword c =
     ((0x30 \<le> c \<and> c \<le> 0x39) \<or> (0x41 \<le> c \<and> c \<le> 0x5A) \<or> c = 0x5F
      \<or> (0x61 \<le> c \<and> c \<le> 0x7A))"

definition basic_lower :: "ustr \<Rightarrow> ustr" where
  "basic_lower s = map (\<lambda>c. if 0x41 \<le> c \<and> c \<le> 0x5A then c + 0x20 else c) s"

definition basic_rt :: runtime where
  "basic_rt = \<lparr> isspace = basic_isspace, isword = basic_isword,
                 isdigit = basic_isdigit, lower = basic_lower \<rparr>"


section \<open>String operations used by the analyzer\<close>

definition strip :: "runtime \<Rightarrow> ustr \<Rightarrow> ustr" where
  "strip U s = rev (dropWhile (isspace U) (rev (dropWhile (isspace U) s)))"

text \<open>\<open>s.split(sep)\<close> for a one-character separator: the empty string gives \<open>['']\<close>.\<close>

fun split_on :: "nat \<Rightarrow> ustr \<Rightarrow> ustr list" where
  "split_on sep [] = [[]]"
| "split_on sep (x # xs) =
     (if x = sep then [] # split_on sep xs
      else (case split_on sep xs of
              [] \<Rightarrow> [[x]]
            | w # ws \<Rightarrow> (x # w) # ws))"

text \<open>\<open>s.split()\<close>: the maximal runs of non-whitespace; \<open>cur\<close> is the run being read, reversed.\<close>

fun split_ws :: "runtime \<Rightarrow> ustr \<Rightarrow> ustr \<Rightarrow> ustr list" where
  "split_ws U [] cur = (if cur = [] then [] else [rev cur])"
| "split_ws U (x # xs) cur =
     (if isspace U x
      then (if cur = [] then split_ws U xs [] else rev cur # split_ws U xs [])
      else split_ws U xs (x # cur))"

definition endswith :: "ustr \<Rightarrow> ustr \<Rightarrow> bool" where
  "endswith s h = (length h \<le> length s \<and> drop (length s - length h) s = h)"

text \<open>\<open>w in s\<close> for strings: \<open>w\<close> occurs as a substring.\<close>

fun contains :: "ustr \<Rightarrow> ustr \<Rightarrow> bool" where
  "contains [] w = (w = [])"
| "contains (x # xs) w = (take (length w) (x # xs) = w \<or> contains xs w)"

definition nth_opt :: "ustr \<Rightarrow> nat \<Rightarrow> nat option" where
  "nth_opt s i = (if i < length s then Some (s ! i) else None)"

text \<open>
  \<open>re.search(r"\bLIT\b", s)\<close> for a literal \<open>LIT\<close>. A word boundary lies between two
  positions exactly one of which holds a word character; the ends of the string count
  as non-word. \<open>prev\<close> is the character before the position under test.
\<close>

definition word_at :: "runtime \<Rightarrow> nat option \<Rightarrow> bool" where
  "word_at U c = (case c of None \<Rightarrow> False | Some x \<Rightarrow> isword U x)"

definition boundary :: "runtime \<Rightarrow> nat option \<Rightarrow> nat option \<Rightarrow> bool" where
  "boundary U prev nxt = (word_at U prev \<noteq> word_at U nxt)"

definition lit_at :: "runtime \<Rightarrow> ustr \<Rightarrow> nat option \<Rightarrow> ustr \<Rightarrow> bool" where
  "lit_at U lit prev s =
     (take (length lit) s = lit
      \<and> boundary U prev (nth_opt s 0)
      \<and> boundary U (if lit = [] then prev else Some (last lit)) (nth_opt s (length lit)))"

fun word_search_from :: "runtime \<Rightarrow> ustr \<Rightarrow> nat option \<Rightarrow> ustr \<Rightarrow> bool" where
  "word_search_from U lit prev [] = lit_at U lit prev []"
| "word_search_from U lit prev (x # xs) =
     (lit_at U lit prev (x # xs) \<or> word_search_from U lit (Some x) xs)"

definition word_search :: "runtime \<Rightarrow> ustr \<Rightarrow> ustr \<Rightarrow> bool" where
  "word_search U lit s = word_search_from U lit None s"

text \<open>
  \<open>re.findall(r"#\w+", s)\<close>: leftmost, greedy, non-overlapping matches. The scanner is
  idle, or has just read a \<open>#\<close>, or is inside a tag whose word characters so far are
  \<open>acc\<close> (reversed).
\<close>

datatype tag_state = Idle | AfterHash | InTag ustr

definition restart :: "nat \<Rightarrow> tag_state" where
  "restart x = (if x = 0x23 then AfterHash else Idle)"

fun findall_tags :: "runtime \<Rightarrow> tag_state \<Rightarrow> ustr \<Rightarrow> ustr list" where
  "findall_tags U st [] = (case st of InTag acc \<Rightarrow> [0x23 # rev acc] | _ \<Rightarrow> [])"
| "findall_tags U st (x # xs) =
     (case st of
        Idle \<Rightarrow> findall_tags U (restart x) xs
      | AfterHash \<Rightarrow>
          (if isword U x then findall_tags U (InTag [x]) xs
           else findall_tags U (restart x) xs)
      | InTag acc \<Rightarrow>
          (if isword U x then findall_tags U (InTag (x # acc)) xs
           else (0x23 # rev acc) # findall_tags U (restart x) xs))"

text \<open>\<open>re.search(r"https?://\S+", s)\<close>.\<close>

definition nonspace_at :: "runtime \<Rightarrow> ustr \<Rightarrow> nat \<Rightarrow> bool" where
  "nonspace_at U s i = (case nth_opt s i of None \<Rightarrow> False | Some c \<Rightarrow> \<not> isspace U c)"

definition url_at :: "runtime \<Rightarrow> ustr \<Rightarrow> bool" where
  "url_at U s =
     ((take 7 s = cp ''http://'' \<and> nonspace_at U s 7)
      \<or> (take 8 s = cp ''https://'' \<and> nonspace_at U s 8))"

fun url_search :: "runtime \<Rightarrow> ustr \<Rightarrow> bool" where
  "url_search U [] = False"
| "url_search U (x # xs) = (url_at U (x # xs) \<or> url_search U xs)"

text \<open>
  \<open>re.match\<close> of the list-item pattern: any number of leading whitespace characters,
  then one character of the class (a digit or one of the listed characters); the
  trailing \<open>\s*\<close> always matches. The listed characters are those of the source file
  as it is stored, decoded as UTF-8.
\<close>

definition list_marker :: "runtime \<Rightarrow> nat \<Rightarrow> bool" where
  "list_marker U c =
     (isdigit U c \<or> c \<in> set [0xE2, 0x20AC, 0xA2, 0x2D, 0x2A, 0xE2, 0x2013, 0xBA,
                               0xE2, 0x2013, 0xB8, 0xE2, 0x2020, 0x2019])"

fun list_item :: "runtime \<Rightarrow> ustr \<Rightarrow> bool" where
  "list_item U [] = False"
| "list_item U (c # cs) = (list_marker U c \<or> (isspace U c \<and> list_item U cs))"

definition is_emoji :: "nat \<Rightarrow> bool" where
  "is_emoji c =
     ((0x1F300 \<le> c \<and> c \<le> 0x1FAFF) \<or> (0x1FB00 \<le> c \<and> c \<le> 0x1FBFF)
      \<or> (0x2600 \<le> c \<and> c \<le> 0x27BF) \<or> (0xFE00 \<le> c \<and> c \<le> 0xFEFF))"


section \<open>config.py: the cached configuration\<close>

text \<open>
  A configuration maps section names to sections; a section read from the file is a
  mapping of option names to values, or some value that is not a mapping. The file on
  disk either cannot be opened or parsed, or parses to a mapping (the empty one for an
  empty document). The module keeps the loaded configuration in a global, and opening
  the file is the only input or output of the module: both are made explicit in the
  state \<open>world\<close>.
\<close>

datatype ysection = YDict pydict | YScalar

type_synonym cfg = "(string \<times> ysection) list"

datatype config_file = Unreadable | Parsed cfg

datatype io_event = OpenConfigFile

record world =
  config_cache :: "cfg option"
  io_log :: "io_event list"

definition DEFAULT_CONFIG :: "(string \<times> pydict) list" where
  "DEFAULT_CONFIG =
     [(''claude'', [(''timeout'', PNum 120), (''output_format'', POther)]),
      (''optimization'', [(''variations'', PNum 3), (''style'', POther),
                          (''lang'', POther), (''max_chars'', PNum 280)]),
      (''display'', [(''bar_width'', PNum 24), (''show_all_signals'', PBool False),
                     (''top_signals_count'', PNum 8)])]"

definition set_item :: "cfg \<Rightarrow> string \<Rightarrow> ysection \<Rightarrow> cfg" where
  "set_item c key v =
     (if key \<in> fst ` set c then map (\<lambda>(k, old). if k = key then (k, v) else (k, old)) c
      else c @ [(key, v)])"

text \<open>
  The merge loop of \<open>load_config\<close>. It mutates the global in place, so when
  \<open>setdefault\<close> is called on a section that is not a mapping, the \<open>AttributeError\<close>
  leaves the configuration merged so far in the cache.
\<close>

fun merge_defaults :: "cfg \<Rightarrow> (string \<times> pydict) list \<Rightarrow> cfg \<times> error option" where
  "merge_defaults c [] = (c, None)"
| "merge_defaults c ((key, val) # rest) =
     (case map_of c key of
        None \<Rightarrow> merge_defaults (set_item c key (YDict val)) rest
      | Some (YDict d) \<Rightarrow>
          merge_defaults
            (set_item c key (YDict (foldl (\<lambda>d (subkey, subvalue). setdefault d subkey subvalue) d val)))
            rest
      | Some YScalar \<Rightarrow> (c, Some AttributeError))"

definition load_config :: "config_file \<Rightarrow> world \<Rightarrow> (error + cfg) \<times> world" where
  "load_config disk w =
     (case config_cache w of
        Some c \<Rightarrow> (Inr c, w)
      | None \<Rightarrow>
          (let loaded = (case disk of Unreadable \<Rightarrow> [] | Parsed c \<Rightarrow> c);
               (merged, err) = merge_defaults loaded DEFAULT_CONFIG;
               w' = w \<lparr> config_cache := Some merged, io_log := io_log w @ [OpenConfigFile] \<rparr>
           in (case err of None \<Rightarrow> Inr merged | Some e \<Rightarrow> Inl e, w')))"

text \<open>\<open>config.get("optimization", {}).get("max_chars", 280)\<close>, as \<open>analyze\<close> calls it.\<close>

definition get_max_chars :: "config_file \<Rightarrow> world \<Rightarrow> (error + pyval) \<times> world" where
  "get_max_chars disk w =
     (case load_config disk w of
        (Inl e, w') \<Rightarrow> (Inl e, w')
      | (Inr c, w') \<Rightarrow>
          (case map_of c ''optimization'' of
             None \<Rightarrow> (Inr (PNum 280), w')
           | Some YScalar \<Rightarrow> (Inl AttributeError, w')
           | Some (YDict d) \<Rightarrow> (Inr (dict_get d ''max_chars'' (PNum 280)), w')))"


section \<open>analyzer.py: structural features\<close>

text \<open>
  The literal tables. Their non-ASCII characters are given by code point, as the
  source file stores them (decoded as UTF-8).
\<close>

definition TR_CHARS :: "nat list" where
  "TR_CHARS = [0xC3, 0xA7, 0xC4, 0x178, 0xC4, 0xB1, 0xC3, 0xB6, 0xC5, 0x178, 0xC3, 0xBC,
               0xC3, 0x2021, 0xC4, 0x17E, 0xC4, 0xB0, 0xC3, 0x2013, 0xC5, 0x17E, 0xC3, 0x153]"

definition CTA_PATTERNS_EN :: "ustr list" where
  "CTA_PATTERNS_EN =
     [cp ''follow'', cp ''retweet'', cp ''share'', cp ''like'',
      cp ''check out'', cp ''click'', cp ''subscribe'', cp ''join'',
      cp ''save this'', cp ''bookmark'', cp ''tag'', cp ''drop'',
      cp ''comment'', cp ''try'', cp ''read'']"

definition CTA_PATTERNS_TR :: "ustr list" where
  "CTA_PATTERNS_TR =
     [cp ''takip'', cp ''payla'' @ [0xC5, 0x178], cp ''be'' @ [0xC4, 0x178] @ cp ''en'', cp ''bak'',
      cp ''t'' @ [0xC4, 0xB1] @ cp ''kla'', cp ''abone'', cp ''kat'' @ [0xC4, 0xB1] @ cp ''l'',
      cp ''kaydet'', cp ''yorum'', cp ''dene'', cp ''oku'', cp ''yaz'']"

definition POWER_WORDS_EN :: "ustr list" where
  "POWER_WORDS_EN =
     [cp ''secret'', cp ''shocking'', cp ''truth'', cp ''mistake'', cp ''wrong'', cp ''never'',
      cp ''always'', cp ''must'', cp ''stop'', cp ''warning'', cp ''proven'', cp ''free'',
      cp ''exclusive'', cp ''breaking'', cp ''urgent'', cp ''finally'', cp ''revealed'',
      cp ''unpopular opinion'', cp ''hot take'', cp ''thread'', cp ''lesson'']"

definition POWER_WORDS_TR :: "ustr list" where
  "POWER_WORDS_TR =
     [cp ''s'' @ [0xC4, 0xB1] @ cp ''r'', [0xC5, 0x178] @ cp ''ok'',
      cp ''ger'' @ [0xC3, 0xA7] @ cp ''ek'', cp ''hata'',
      cp ''yanl'' @ [0xC4, 0xB1, 0xC5, 0x178], cp ''asla'',
      cp ''her zaman'', cp ''mutlaka'', cp ''dur'', cp ''uyar'' @ [0xC4, 0xB1],
      cp ''kan'' @ [0xC4, 0xB1] @ cp ''tlanm'' @ [0xC4, 0xB1, 0xC5, 0x178],
      [0xC3, 0xBC] @ cp ''cretsiz'', [0xC3, 0xB6] @ cp ''zel'', cp ''son dakika'',
      cp ''acil'', cp ''sonunda'']"

definition trWords :: "ustr list" where
  "trWords =
     [cp ''bir'', cp ''bu'', cp ''ve'', cp ''ile'', cp ''i'' @ [0xC3, 0xA7] @ cp ''in'',
      cp ''olan'', cp ''var'', cp ''gibi'', cp ''ama'', [0xC3, 0xA7] @ cp ''ok'',
      cp ''daha'', cp ''ben'', cp ''sen'', cp ''biz'', cp ''de'' @ [0xC4, 0x178] @ cp ''il'',
      cp ''olarak'', cp ''kadar'', cp ''sonra'', [0xC3, 0xB6] @ cp ''nce'',
      [0xC5, 0x178] @ cp ''ey'']"

definition hook_indicators :: "ustr list" where
  "hook_indicators =
     [cp '':'', cp ''?'', cp ''!'', cp ''...'', [0xE2, 0x20AC, 0x201D],
      [0xF0, 0x178, 0x2018, 0x2021], [0xF0, 0x178, 0xA7, 0xB5]]"

definition detect_language :: "runtime \<Rightarrow> ustr \<Rightarrow> string" where
  "detect_language U text =
     (if \<exists>c \<in> set text. c \<in> set TR_CHARS then ''tr''
      else (let lower_text = lower U text;
                trCount = length (filter (\<lambda>w. word_search U w lower_text) trWords)
            in if 3 \<le> trCount then ''tr'' else ''en''))"

text \<open>
  \<open>round(char_count / maxChars * 100, 1)\<close>: dividing by zero and dividing by a value
  that is not a number raise.
\<close>

definition utilization :: "int \<Rightarrow> pyval \<Rightarrow> error + rat" where
  "utilization n maxChars =
     (case num_of maxChars of
        None \<Rightarrow> Inl TypeError
      | Some m \<Rightarrow> (if m = 0 then Inl ZeroDivisionError
                   else Inr (py_round 1 (of_int n / m * 100))))"

text \<open>
  The body of \<open>analyze\<close>, from the text, the media flag and the value that the
  configuration gave for \<open>max_chars\<close>.
\<close>

definition build_features :: "runtime \<Rightarrow> ustr \<Rightarrow> bool \<Rightarrow> pyval \<Rightarrow> error + features" where
  "build_features U text has_media_flag maxChars =
     (let lines = filter (\<lambda>l. strip U l \<noteq> []) (split_on 0x0A (strip U text));
          first = (case lines of [] \<Rightarrow> [] | l # _ \<Rightarrow> strip U l);
          n_chars = int (length text);
          tags = findall_tags U Idle text;
          questions = int (length (filter (\<lambda>c. c = 0x3F) text));
          language = detect_language U text;
          hook = ((\<exists>h \<in> set hook_indicators. endswith first h) \<or> length first < 60);
          lower_text = lower U text;
          cta_patterns = (if language = ''tr'' then CTA_PATTERNS_TR else CTA_PATTERNS_EN);
          cta_matches = filter (\<lambda>p. word_search U p lower_text) cta_patterns;
          power_words = (if language = ''tr'' then POWER_WORDS_TR else POWER_WORDS_EN);
          found_power = filter (\<lambda>w. contains lower_text w) power_words;
          list_lines = filter (list_item U) lines
      in case utilization n_chars maxChars of
           Inl e \<Rightarrow> Inl e
         | Inr util \<Rightarrow>
             Inr \<lparr> char_count = n_chars,
                   char_utilization = util,
                   word_count = int (length (split_ws U text [])),
                   line_count = int (length lines),
                   first_line = first,
                   has_hook = hook,
                   has_question = (0 < questions),
                   question_count = questions,
                   hashtag_count = int (length tags),
                   hashtags = tags,
                   has_url = url_search U text,
                   has_media = has_media_flag,
                   lang = language,
                   has_cta = (0 < length cta_matches),
                   cta_count = int (length cta_matches),
                   power_word_count = int (length found_power),
                   power_words_found = found_power,
                   has_numbers = (\<exists>c \<in> set text. isdigit U c),
                   has_list_format = (2 \<le> length list_lines),
                   emoji_count = int (length (filter is_emoji text)) \<rparr>)"

definition analyze :: "runtime \<Rightarrow> config_file \<Rightarrow> ustr \<Rightarrow> bool \<Rightarrow> world \<Rightarrow> (error + features) \<times> world" where
  "analyze U disk text has_media_flag w =
     (case get_max_chars disk w of
        (Inl e, w') \<Rightarrow> (Inl e, w')
      | (Inr maxChars, w') \<Rightarrow> (build_features U text has_media_flag maxChars, w'))"


section \<open>scorer.py: the heuristic estimator\<close>

definition clamp :: "rat \<Rightarrow> rat" where
  "clamp v = max 0 (min 1 v)"

text \<open>
  Each signal starts from its base and adds every bonus whose condition holds, in the
  order of the source's \<open>if\<close> statements.
\<close>

definition base_fav :: "features \<Rightarrow> rat" where
  "base_fav a = 0.20
     + (if 0 < power_word_count a then min (of_int (power_word_count a) * 0.08) 0.25 else 0)
     + (if has_question a then 0.05 else 0)
     + (if 0 < emoji_count a then 0.05 else 0)
     + (if 50 < char_utilization a then 0.10 else 0)
     + (if has_media a then 0.10 else 0)"

definition base_reply :: "features \<Rightarrow> rat" where
  "base_reply a = 0.10
     + (if has_question a then 0.15 * of_int (min (question_count a) 3) else 0)
     + (if has_cta a then 0.10 else 0)
     + (if 0 < power_word_count a then 0.08 else 0)
     + (if 3 \<le> line_count a then 0.05 else 0)"

definition base_rt :: "features \<Rightarrow> rat" where
  "base_rt a = 0.15
     + (if has_numbers a then 0.12 else 0)
     + (if 2 \<le> power_word_count a then 0.10 else 0)
     + (if 100 < char_count a \<and> char_count a < 200 then 0.08 else 0)
     + (if has_list_format a then 0.05 else 0)"

definition base_photo :: "features \<Rightarrow> rat" where
  "base_photo a = 0.05 + (if has_media a then 0.50 else 0)"

definition base_click :: "features \<Rightarrow> rat" where
  "base_click a = 0.05
     + (if has_url a then 0.35 else 0)
     + (if 0 < power_word_count a \<and> has_url a then 0.10 else 0)"

definition base_profile :: "features \<Rightarrow> rat" where
  "base_profile a = 0.10
     + (if 2 \<le> power_word_count a then 0.10 else 0)
     + (if has_numbers a then 0.08 else 0)
     + (if 60 < char_utilization a then 0.05 else 0)"

definition base_vqv :: "features \<Rightarrow> rat" where
  "base_vqv a = 0.02 + (if has_media a then 0.15 else 0)"

definition base_share :: "features \<Rightarrow> rat" where
  "base_share a = 0.10
     + (if has_list_format a then 0.15 else 0)
     + (if has_numbers a then 0.10 else 0)
     + (if 0 < power_word_count a then 0.05 else 0)
     + (if 50 < char_utilization a then 0.05 else 0)"

definition base_dm :: "features \<Rightarrow> rat" where
  "base_dm a = 0.05
     + (if 2 \<le> power_word_count a then 0.12 else 0)
     + (if has_numbers a then 0.08 else 0)
     + (if has_question a \<and> 0 < power_word_count a then 0.10 else 0)
     + (if 60 < char_utilization a then 0.05 else 0)"

definition base_copy :: "features \<Rightarrow> rat" where
  "base_copy a = 0.05
     + (if has_list_format a then 0.12 else 0)
     + (if has_numbers a then 0.08 else 0)
     + (if 70 < char_utilization a then 0.05 else 0)"

definition base_dwell :: "features \<Rightarrow> rat" where
  "base_dwell a = 0.15
     + (if has_hook a then 0.15 else 0)
     + (if 3 \<le> line_count a then 0.10 else 0)
     + (if 50 < char_utilization a then 0.10 else 0)"

definition base_quote :: "features \<Rightarrow> rat" where
  "base_quote a = 0.08
     + (if 2 \<le> power_word_count a then 0.12 else 0)
     + (if has_numbers a then 0.08 else 0)
     + (if has_question a then 0.05 else 0)"

definition base_follow :: "features \<Rightarrow> rat" where
  "base_follow a = 0.08
     + (if has_numbers a then 0.08 else 0)
     + (if 2 \<le> power_word_count a then 0.08 else 0)
     + (if 60 < char_utilization a then 0.05 else 0)"

definition base_ni :: "features \<Rightarrow> rat" where
  "base_ni a = 0.10
     + (if 3 < hashtag_count a then 0.15 else 0)
     + (if char_utilization a < 15 then 0.10 else 0)
     + (if 2 < cta_count a then 0.08 else 0)"

definition base_block :: "features \<Rightarrow> rat" where
  "base_block a = 0.03 + (if 5 < hashtag_count a then 0.05 else 0)"

definition base_mute :: "features \<Rightarrow> rat" where
  "base_mute a = 0.05 + (if 3 < hashtag_count a then 0.05 else 0)"

definition base_dwell_t :: "features \<Rightarrow> rat" where
  "base_dwell_t a = 0.15
     + (if 4 \<le> line_count a then 0.15 else 0)
     + (if 60 < char_utilization a then 0.15 else 0)
     + (if has_hook a then 0.10 else 0)
     + (if has_list_format a then 0.10 else 0)"

text \<open>
  The dictionary \<open>s\<close> that \<open>score_tweet\<close> fills, in the order of its assignments.
  \<open>quoted_click_score\<close> and \<open>report_score\<close> are constants stored without clamping.
\<close>

definition score_tweet :: "features \<Rightarrow> pydict" where
  "score_tweet a =
     [(''favorite_score'', PNum (clamp (base_fav a))),
      (''reply_score'', PNum (clamp (base_reply a))),
      (''repost_score'', PNum (clamp (base_rt a))),
      (''photo_expand_score'', PNum (clamp (base_photo a))),
      (''click_score'', PNum (clamp (base_click a))),
      (''profile_click_score'', PNum (clamp (base_profile a))),
      (''vqv_score'', PNum (clamp (base_vqv a))),
      (''share_score'', PNum (clamp (base_share a))),
      (''share_via_dm_score'', PNum (clamp (base_dm a))),
      (''share_via_copy_link_score'', PNum (clamp (base_copy a))),
      (''dwell_score'', PNum (clamp (base_dwell a))),
      (''quote_score'', PNum (clamp (base_quote a))),
      (''quoted_click_score'', PNum 0.05),
      (''follow_author_score'', PNum (clamp (base_follow a))),
      (''not_interested_score'', PNum (clamp (base_ni a))),
      (''block_author_score'', PNum (clamp (base_block a))),
      (''mute_author_score'', PNum (clamp (base_mute a))),
      (''report_score'', PNum 0.02),
      (''dwell_time'', PNum (clamp (base_dwell_t a)))]"


section \<open>algorithm.py: the signal catalog and the weighted aggregator\<close>

text \<open>
  Modelled from the spec: the module \<open>x_content/algorithm.py\<close>, which defines
  \<open>ACTIONS\<close>, \<open>ACTION_WEIGHTS\<close>, \<open>NEGATIVE_ACTIONS\<close> and \<open>compute_weighted_score\<close>, is
  not among the sources. The catalog below is the table of the specification (19
  entries: id, weight, negative polarity), with the ids spelled as the dictionary keys
  that \<open>score_tweet\<close> writes and that the instructional prompt lists beside the same
  weights.
\<close>

definition catalog :: "(string \<times> rat \<times> bool) list" where
  "catalog =
     [(''favorite_score'', 1.0, False),
      (''reply_score'', 27.0, False),
      (''repost_score'', 10.0, False),
      (''photo_expand_score'', 0.3, False),
      (''click_score'', 0.3, False),
      (''profile_click_score'', 2.0, False),
      (''vqv_score'', 0.2, False),
      (''share_score'', 1.0, False),
      (''share_via_dm_score'', 100.0, False),
      (''share_via_copy_link_score'', 5.0, False),
      (''dwell_score'', 2.0, False),
      (''quote_score'', 40.0, False),
      (''quoted_click_score'', 0.5, False),
      (''follow_author_score'', 10.0, False),
      (''dwell_time'', 0.8, False),
      (''not_interested_score'', - 74.0, True),
      (''block_author_score'', - 371.0, True),
      (''mute_author_score'', - 74.0, True),
      (''report_score'', - 9209.0, True)]"

definition ACTIONS :: "string list" where
  "ACTIONS = map fst catalog"

definition ACTION_WEIGHTS :: "(string \<times> rat) list" where
  "ACTION_WEIGHTS = map (\<lambda>(a, w, n). (a, w)) catalog"

definition NEGATIVE_ACTIONS :: "string list" where
  "NEGATIVE_ACTIONS = map fst (filter (\<lambda>(a, w, n). n) catalog)"

text \<open>
  Modelled from the spec: \<open>combined\<close> is the sum over the catalog of probability times
  weight, an id missing from the vector counting as 0.0. Multiplying a value that is
  not a number raises \<open>TypeError\<close>, as any Python arithmetic on it does.
\<close>

fun weighted_sum :: "pydict \<Rightarrow> (string \<times> rat) list \<Rightarrow> error + rat" where
  "weighted_sum scores [] = Inr 0"
| "weighted_sum scores ((a, w) # rest) =
     (case num_of (dict_get scores a (PNum 0)) of
        None \<Rightarrow> Inl TypeError
      | Some p \<Rightarrow>
          (case weighted_sum scores rest of
             Inl e \<Rightarrow> Inl e
           | Inr r \<Rightarrow> Inr (p * w + r)))"

text \<open>
  Modelled from the spec: a negative combined score is doubled, any other is returned
  as it is; the media flag is accepted and unused.
\<close>

definition compute_weighted_score :: "pydict \<Rightarrow> bool \<Rightarrow> error + rat" where
  "compute_weighted_score scores has_media_flag =
     (case weighted_sum scores ACTION_WEIGHTS of
        Inl e \<Rightarrow> Inl e
      | Inr combined \<Rightarrow> Inr (if combined < 0 then combined * 2 else combined))"


section \<open>scorer.py: deltas and reports\<close>

record delta_entry =
  e_original :: pyval
  e_optimized :: pyval
  delta_pct :: rat
  direction :: string
  is_new :: bool

text \<open>\<open>v == 0.0\<close> never raises: a value that is not a number is simply unequal.\<close>

definition py_eq0 :: "pyval \<Rightarrow> bool" where
  "py_eq0 v = (num_of v = Some 0)"

text \<open>
  \<open>isNew = orig == 0.0 and opt > 0.0\<close>: the right operand is evaluated only when the
  left one holds, and comparing a non-number with \<open>0.0\<close> raises.
\<close>

definition eval_isNew :: "pyval \<Rightarrow> pyval \<Rightarrow> error + bool" where
  "eval_isNew orig opt =
     (if py_eq0 orig
      then (case num_of opt of None \<Rightarrow> Inl TypeError | Some c \<Rightarrow> Inr (0 < c))
      else Inr False)"

text \<open>The unrounded percentage, the local variable \<open>delta_pct\<close> of the loop body.\<close>

definition raw_delta :: "bool \<Rightarrow> pyval \<Rightarrow> pyval \<Rightarrow> error + rat" where
  "raw_delta isNew orig opt =
     (if isNew then Inr 100.0
      else if py_eq0 orig then Inr 0.0
      else (case (num_of opt, num_of orig) of
              (Some x_opt, Some x_orig) \<Rightarrow> Inr (((x_opt - x_orig) / x_orig) * 100)
            | _ \<Rightarrow> Inl TypeError))"

definition direction_of :: "bool \<Rightarrow> rat \<Rightarrow> string" where
  "direction_of is_negative d =
     (if is_negative then (if d < 0 then ''improved'' else ''worse'')
      else (if 0 < d then ''improved'' else ''worse''))"

text \<open>One iteration of the loop of \<open>compute_delta\<close>, for one action.\<close>

definition delta_step :: "pydict \<Rightarrow> pydict \<Rightarrow> string \<Rightarrow> error + delta_entry" where
  "delta_step original optimized action =
     (let orig = dict_get original action (PNum 0.0);
          opt = dict_get optimized action (PNum 0.0)
      in case eval_isNew orig opt of
           Inl e \<Rightarrow> Inl e
         | Inr isNew \<Rightarrow>
             (case raw_delta isNew orig opt of
                Inl e \<Rightarrow> Inl e
              | Inr d \<Rightarrow>
                  Inr \<lparr> e_original = orig, e_optimized = opt,
                        delta_pct = py_round 1 d,
                        direction = direction_of (action \<in> set NEGATIVE_ACTIONS) d,
                        is_new = isNew \<rparr>))"

fun delta_loop :: "pydict \<Rightarrow> pydict \<Rightarrow> string list \<Rightarrow> error + (string \<times> delta_entry) list" where
  "delta_loop original optimized [] = Inr []"
| "delta_loop original optimized (action # rest) =
     (case delta_step original optimized action of
        Inl e \<Rightarrow> Inl e
      | Inr d \<Rightarrow>
          (case delta_loop original optimized rest of
             Inl e \<Rightarrow> Inl e
           | Inr res \<Rightarrow> Inr ((action, d) # res)))"

definition compute_delta :: "pydict \<Rightarrow> pydict \<Rightarrow> error + (string \<times> delta_entry) list" where
  "compute_delta original optimized = delta_loop original optimized ACTIONS"

record score_report =
  signals :: pydict
  weighted_score :: rat

definition full_score_report :: "features \<Rightarrow> bool \<Rightarrow> error + score_report" where
  "full_score_report analysis has_media_flag =
     (let sigs = score_tweet analysis
      in case compute_weighted_score sigs has_media_flag of
           Inl e \<Rightarrow> Inl e
         | Inr w \<Rightarrow> Inr \<lparr> signals = sigs, weighted_score = py_round 2 w \<rparr>)"

record comparison =
  c_original :: score_report
  c_optimized :: score_report
  c_delta :: "(string \<times> delta_entry) list"
  weighted_score_original :: rat
  weighted_score_optimized :: rat
  weighted_score_change :: rat

definition comparison_report :: "features \<Rightarrow> pydict \<Rightarrow> bool \<Rightarrow> error + comparison" where
  "comparison_report original_analysis optimized_scores has_media_flag =
     (case full_score_report original_analysis has_media_flag of
        Inl e \<Rightarrow> Inl e
      | Inr orig_report \<Rightarrow>
          (case compute_weighted_score optimized_scores has_media_flag of
             Inl e \<Rightarrow> Inl e
           | Inr opt_weighted \<Rightarrow>
               (case compute_delta (signals orig_report) optimized_scores of
                  Inl e \<Rightarrow> Inl e
                | Inr dl \<Rightarrow>
                    Inr \<lparr> c_original = orig_report,
                          c_optimized = \<lparr> signals = optimized_scores,
                                          weighted_score = py_round 2 opt_weighted \<rparr>,
                          c_delta = dl,
                          weighted_score_original = weighted_score orig_report,
                          weighted_score_optimized = py_round 2 opt_weighted,
                          weighted_score_change =
                            py_round 2 (opt_weighted - weighted_score orig_report) \<rparr>)))"


section \<open>optimizer.py: validating an externally supplied variation\<close>











section \<open>The delta rule in the specification's words\<close>

text \<open>
  The per-signal rule of the specification, before any rounding: 100 for a signal
  that is new, 0 when the original is 0 otherwise, else the percentage change.
\<close>

definition spec_delta :: "rat \<Rightarrow> rat \<Rightarrow> rat" where
  "spec_delta orig cand =
     (if orig = 0 \<and> 0 < cand then 100
      else if orig = 0 then 0
      else (cand - orig) / orig * 100)"



section \<open>The specification's example text\<close>

text \<open>The text \<open>Is AI going to replace your job? Thread\<close> followed by U+1F9F5.\<close>

definition example_text :: ustr where
  "example_text = cp ''Is AI going to replace your job? Thread '' @ [0x1F9F5]"


section \<open>Facts about the catalog\<close>

lemma ACTIONS_eq:
  "ACTIONS =
     [''favorite_score'', ''reply_score'', ''repost_score'', ''photo_expand_score'',
      ''click_score'', ''profile_click_score'', ''vqv_score'', ''share_score'',
      ''share_via_dm_score'', ''share_via_copy_link_score'', ''dwell_score'',
      ''quote_score'', ''quoted_click_score'', ''follow_author_score'', ''dwell_time'',
      ''not_interested_score'', ''block_author_score'', ''mute_author_score'',
      ''report_score'']"
  by (simp add: ACTIONS_def catalog_def)

lemma ACTION_WEIGHTS_eq:
  "ACTION_WEIGHTS =
     [(''favorite_score'', 1), (''reply_score'', 27), (''repost_score'', 10),
      (''photo_expand_score'', 3 / 10), (''click_score'', 3 / 10),
      (''profile_click_score'', 2), (''vqv_score'', 2 / 10), (''share_score'', 1),
      (''share_via_dm_score'', 100), (''share_via_copy_link_score'', 5),
      (''dwell_score'', 2), (''quote_score'', 40), (''quoted_click_score'', 5 / 10),
      (''follow_author_score'', 10), (''dwell_time'', 8 / 10),
      (''not_interested_score'', - 74), (''block_author_score'', - 371),
      (''mute_author_score'', - 74), (''report_score'', - 9209)]"
  by (simp add: ACTION_WEIGHTS_def catalog_def)

lemma NEGATIVE_ACTIONS_eq:
  "NEGATIVE_ACTIONS =
     [''not_interested_score'', ''block_author_score'', ''mute_author_score'',
      ''report_score'']"
  by (simp add: NEGATIVE_ACTIONS_def catalog_def)

lemma weight_keys: "fst ` set ACTION_WEIGHTS = set ACTIONS"
  by (simp add: ACTION_WEIGHTS_eq ACTIONS_eq)


section \<open>The weighted aggregator\<close>

lemma weighted_sum_numeric:
  "(\<And>a. a \<in> fst ` set ws \<Longrightarrow> num_of (dict_get v a (PNum 0)) = Some (p a))
   \<Longrightarrow> weighted_sum v ws = Inr (\<Sum>(a, w) \<leftarrow> ws. p a * w)"
  by (induction ws) (auto simp: case_prod_beta)

text \<open>
  C1. For a signal vector \<open>v\<close> whose value at each catalog id \<open>a\<close> is the number \<open>p a\<close>
  (an absent id counting as 0), the aggregator returns the sum over the 19 catalog
  ids of value times weight, doubled when that sum is negative and unchanged
  otherwise; nothing else is applied to the returned value.
\<close>

theorem aggregate_is_penalised_weighted_sum:
  assumes "\<And>a. a \<in> set ACTIONS \<Longrightarrow> num_of (dict_get v a (PNum 0)) = Some (p a)"
  shows "compute_weighted_score v m =
     Inr (let combined =
               p ''favorite_score'' * 1.0 + p ''reply_score'' * 27.0 + p ''repost_score'' * 10.0
             + p ''photo_expand_score'' * 0.3 + p ''click_score'' * 0.3
             + p ''profile_click_score'' * 2.0 + p ''vqv_score'' * 0.2 + p ''share_score'' * 1.0
             + p ''share_via_dm_score'' * 100.0 + p ''share_via_copy_link_score'' * 5.0
             + p ''dwell_score'' * 2.0 + p ''quote_score'' * 40.0
             + p ''quoted_click_score'' * 0.5 + p ''follow_author_score'' * 10.0
             + p ''dwell_time'' * 0.8 + p ''not_interested_score'' * (- 74.0)
             + p ''block_author_score'' * (- 371.0) + p ''mute_author_score'' * (- 74.0)
             + p ''report_score'' * (- 9209.0)
          in if combined < 0 then combined * 2 else combined)"
proof -
  have "weighted_sum v ACTION_WEIGHTS = Inr (\<Sum>(a, w) \<leftarrow> ACTION_WEIGHTS. p a * w)"
    by (rule weighted_sum_numeric) (simp add: weight_keys assms)
  then show ?thesis
    by (simp add: compute_weighted_score_def ACTION_WEIGHTS_eq Let_def)
qed

text \<open>
  The vector holding only \<open>report = 0.01\<close> has the weighted sum \<open>-92.09\<close>; the
  aggregator returns twice that.
\<close>

theorem aggregate_is_penalised_weighted_sum_witness:
  "compute_weighted_score [(''report_score'', PNum 0.01)] False = Inr (2 * (- 92.09))"
proof -
  have h: "\<And>a. a \<in> set ACTIONS \<Longrightarrow>
      num_of (dict_get [(''report_score'', PNum 0.01)] a (PNum 0))
        = Some (if a = ''report_score'' then 0.01 else 0)"
    by (simp add: dict_get_def)
  show ?thesis
    using aggregate_is_penalised_weighted_sum
            [of "[(''report_score'', PNum 0.01)]"
                "\<lambda>a. if a = ''report_score'' then 0.01 else 0" False, OF h]
    by (simp add: Let_def)
qed


section \<open>The estimator stays inside the unit interval\<close>

lemma clamp_range: "0 \<le> clamp v \<and> clamp v \<le> 1"
  by (simp add: clamp_def)

text \<open>
  C2. For every feature record, \<open>score_tweet\<close> returns exactly the 19 signal keys, and
  every value it returns is a number in the closed interval from 0 to 1.
\<close>

theorem score_tweet_in_unit_interval:
  "map fst (score_tweet a) =
     [''favorite_score'', ''reply_score'', ''repost_score'', ''photo_expand_score'',
      ''click_score'', ''profile_click_score'', ''vqv_score'', ''share_score'',
      ''share_via_dm_score'', ''share_via_copy_link_score'', ''dwell_score'',
      ''quote_score'', ''quoted_click_score'', ''follow_author_score'',
      ''not_interested_score'', ''block_author_score'', ''mute_author_score'',
      ''report_score'', ''dwell_time'']
   \<and> (\<forall>(k, v) \<in> set (score_tweet a). \<exists>x. v = PNum x \<and> 0 \<le> x \<and> x \<le> 1)"
proof -
  have c1: "\<exists>x. PNum 0.05 = PNum x \<and> 0 \<le> x \<and> x \<le> 1"
    by (rule exI[of _ "0.05"]) simp
  have c2: "\<exists>x. PNum 0.02 = PNum x \<and> 0 \<le> x \<and> x \<le> 1"
    by (rule exI[of _ "0.02"]) simp
  show ?thesis
    using c1 c2 by (simp add: score_tweet_def clamp_range)
qed

text \<open>
  A record with every bonus of \<open>favorite\<close> switched on and twenty power words: the
  unclamped sum is 0.75, present in the result and inside the interval.
\<close>

theorem score_tweet_in_unit_interval_witness:
  "(''favorite_score'', PNum 0.75)
     \<in> set (score_tweet \<lparr> char_count = 250, char_utilization = 89.3, word_count = 40,
          line_count = 5, first_line = cp ''Never:'', has_hook = True, has_question = True,
          question_count = 4, hashtag_count = 6, hashtags = [], has_url = True,
          has_media = True, lang = ''en'', has_cta = True, cta_count = 3,
          power_word_count = 20, power_words_found = [], has_numbers = True,
          has_list_format = True, emoji_count = 2 \<rparr>)
   \<and> (\<exists>x. PNum 0.75 = PNum x \<and> 0 \<le> x \<and> x \<le> 1)"
proof -
  have m: "(''favorite_score'', PNum 0.75)
     \<in> set (score_tweet \<lparr> char_count = 250, char_utilization = 89.3, word_count = 40,
          line_count = 5, first_line = cp ''Never:'', has_hook = True, has_question = True,
          question_count = 4, hashtag_count = 6, hashtags = [], has_url = True,
          has_media = True, lang = ''en'', has_cta = True, cta_count = 3,
          power_word_count = 20, power_words_found = [], has_numbers = True,
          has_list_format = True, emoji_count = 2 \<rparr>)"
    by (simp add: score_tweet_def base_fav_def clamp_def)
  with score_tweet_in_unit_interval show ?thesis
    by fast
qed

section \<open>Per-signal deltas\<close>

lemma py_round_0 [simp]: "py_round n 0 = 0"
  by (simp add: py_round_def)

lemma py_round_1_100 [simp]: "py_round (Suc 0) 100 = 100"
  by (simp add: py_round_def)

lemma delta_loop_lookup:
  "delta_loop original optimized acts = Inr res \<Longrightarrow> a \<in> set acts
   \<Longrightarrow> \<exists>e. delta_step original optimized a = Inr e \<and> map_of res a = Some e"
proof (induction acts arbitrary: res)
  case Nil
  then show ?case by simp
next
  case (Cons b acts)
  then show ?case
    by (auto split: sum.splits)
qed

lemma delta_loop_total:
  "(\<And>a. a \<in> set acts \<Longrightarrow> \<exists>e. delta_step original optimized a = Inr e)
   \<Longrightarrow> \<exists>res. delta_loop original optimized acts = Inr res"
proof (induction acts)
  case Nil
  then show ?case by simp
next
  case (Cons b acts)
  then obtain e where "delta_step original optimized b = Inr e" by fastforce
  moreover from Cons obtain res where "delta_loop original optimized acts = Inr res" by fastforce
  ultimately show ?case by simp
qed

lemma delta_step_numeric:
  assumes "num_of (dict_get original a (PNum 0)) = Some x"
      and "num_of (dict_get optimized a (PNum 0)) = Some y"
  shows "delta_step original optimized a =
     Inr \<lparr> e_original = dict_get original a (PNum 0),
           e_optimized = dict_get optimized a (PNum 0),
           delta_pct = py_round 1 (spec_delta x y),
           direction = direction_of (a \<in> set NEGATIVE_ACTIONS) (spec_delta x y),
           is_new = (x = 0 \<and> 0 < y) \<rparr>"
  using assms
  by (simp add: delta_step_def eval_isNew_def raw_delta_def py_eq0_def spec_delta_def Let_def)

lemma compute_delta_numeric:
  assumes "\<And>a. a \<in> set ACTIONS \<Longrightarrow> num_of (dict_get original a (PNum 0)) = Some (p a)"
      and "\<And>a. a \<in> set ACTIONS \<Longrightarrow> num_of (dict_get optimized a (PNum 0)) = Some (q a)"
  shows "\<exists>res. compute_delta original optimized = Inr res
     \<and> (\<forall>a \<in> set ACTIONS. \<exists>e. map_of res a = Some e
          \<and> delta_pct e = py_round 1 (spec_delta (p a) (q a))
          \<and> direction e = direction_of (a \<in> set NEGATIVE_ACTIONS) (spec_delta (p a) (q a))
          \<and> is_new e = (p a = 0 \<and> 0 < q a)
          \<and> e_original e = dict_get original a (PNum 0)
          \<and> e_optimized e = dict_get optimized a (PNum 0))"
proof -
  have step: "\<And>a. a \<in> set ACTIONS \<Longrightarrow> delta_step original optimized a =
     Inr \<lparr> e_original = dict_get original a (PNum 0),
           e_optimized = dict_get optimized a (PNum 0),
           delta_pct = py_round 1 (spec_delta (p a) (q a)),
           direction = direction_of (a \<in> set NEGATIVE_ACTIONS) (spec_delta (p a) (q a)),
           is_new = (p a = 0 \<and> 0 < q a) \<rparr>"
    by (rule delta_step_numeric) (simp_all add: assms)
  then obtain res where res: "delta_loop original optimized ACTIONS = Inr res"
    using delta_loop_total[of ACTIONS original optimized] by blast
  have "\<exists>e. map_of res a = Some e
          \<and> delta_pct e = py_round 1 (spec_delta (p a) (q a))
          \<and> direction e = direction_of (a \<in> set NEGATIVE_ACTIONS) (spec_delta (p a) (q a))
          \<and> is_new e = (p a = 0 \<and> 0 < q a)
          \<and> e_original e = dict_get original a (PNum 0)
          \<and> e_optimized e = dict_get optimized a (PNum 0)" if "a \<in> set ACTIONS" for a
    using delta_loop_lookup[OF res that] step[OF that] by auto
  with res show ?thesis
    by (simp add: compute_delta_def)
qed





section \<open>Direction labels\<close>

text \<open>
  C4 (amended). With the delta taken before rounding (\<open>spec_delta\<close> of the two
  values), every catalog id gets an entry whose direction is \<open>improved\<close> exactly when
  the delta is positive, for a positive-polarity signal, and exactly when it is
  negative, for a negative-polarity signal; any other direction is \<open>worse\<close>, and an
  unrounded delta of 0 is never \<open>improved\<close>.
\<close>

theorem direction_from_unrounded_delta:
  assumes "\<And>a. a \<in> set ACTIONS \<Longrightarrow> num_of (dict_get original a (PNum 0)) = Some (p a)"
      and "\<And>a. a \<in> set ACTIONS \<Longrightarrow> num_of (dict_get optimized a (PNum 0)) = Some (q a)"
  shows "\<exists>res. compute_delta original optimized = Inr res
     \<and> (\<forall>a \<in> set ACTIONS. \<exists>e. map_of res a = Some e
          \<and> (a \<notin> set NEGATIVE_ACTIONS \<longrightarrow>
                (direction e = ''improved'') = (0 < spec_delta (p a) (q a)))
          \<and> (a \<in> set NEGATIVE_ACTIONS \<longrightarrow>
                (direction e = ''improved'') = (spec_delta (p a) (q a) < 0))
          \<and> (direction e \<noteq> ''improved'' \<longrightarrow> direction e = ''worse'')
          \<and> (spec_delta (p a) (q a) = 0 \<longrightarrow> direction e = ''worse''))"
proof -
  from compute_delta_numeric[OF assms] obtain res where
    res: "compute_delta original optimized = Inr res" and
    ent: "\<And>a. a \<in> set ACTIONS \<Longrightarrow> \<exists>e. map_of res a = Some e
          \<and> direction e = direction_of (a \<in> set NEGATIVE_ACTIONS) (spec_delta (p a) (q a))"
    by blast
  have "\<exists>e. map_of res a = Some e
          \<and> (a \<notin> set NEGATIVE_ACTIONS \<longrightarrow>
                (direction e = ''improved'') = (0 < spec_delta (p a) (q a)))
          \<and> (a \<in> set NEGATIVE_ACTIONS \<longrightarrow>
                (direction e = ''improved'') = (spec_delta (p a) (q a) < 0))
          \<and> (direction e \<noteq> ''improved'' \<longrightarrow> direction e = ''worse'')
          \<and> (spec_delta (p a) (q a) = 0 \<longrightarrow> direction e = ''worse'')"
    if "a \<in> set ACTIONS" for a
    using ent[OF that] by (auto simp: direction_of_def)
  with res show ?thesis by blast
qed

text \<open>
  C4 read on the reported field fails: from 0.4 to 0.4001 on \<open>reply\<close>, a
  positive-polarity signal, the report holds \<open>delta_pct = 0.0\<close> and \<open>improved\<close>.
\<close>

theorem zero_delta_improved_counterexample:
  "map_option delta_pct
     (map_of (projr (compute_delta [(''reply_score'', PNum 0.4)] [(''reply_score'', PNum 0.4001)]))
        ''reply_score'') = Some 0
   \<and> map_option direction
     (map_of (projr (compute_delta [(''reply_score'', PNum 0.4)] [(''reply_score'', PNum 0.4001)]))
        ''reply_score'') = Some ''improved''"
  by code_simp

text \<open>
  The specification's examples: a negative-polarity signal falling from 0.20 to 0.05
  improves, one rising from 0.05 to 0.20 worsens; a positive one rising improves; a
  signal absent on both sides is \<open>worse\<close>.
\<close>

theorem direction_from_unrounded_delta_witness:
  "map_option direction
     (map_of (projr (compute_delta
        [(''report_score'', PNum 0.20), (''block_author_score'', PNum 0.05), (''reply_score'', PNum 0.3)]
        [(''report_score'', PNum 0.05), (''block_author_score'', PNum 0.20), (''reply_score'', PNum 0.4)]))
        ''report_score'') = Some ''improved''
   \<and> map_option direction
     (map_of (projr (compute_delta
        [(''report_score'', PNum 0.20), (''block_author_score'', PNum 0.05), (''reply_score'', PNum 0.3)]
        [(''report_score'', PNum 0.05), (''block_author_score'', PNum 0.20), (''reply_score'', PNum 0.4)]))
        ''block_author_score'') = Some ''worse''
   \<and> map_option direction
     (map_of (projr (compute_delta
        [(''report_score'', PNum 0.20), (''block_author_score'', PNum 0.05), (''reply_score'', PNum 0.3)]
        [(''report_score'', PNum 0.05), (''block_author_score'', PNum 0.20), (''reply_score'', PNum 0.4)]))
        ''reply_score'') = Some ''improved''
   \<and> map_option direction
     (map_of (projr (compute_delta
        [(''report_score'', PNum 0.20), (''block_author_score'', PNum 0.05), (''reply_score'', PNum 0.3)]
        [(''report_score'', PNum 0.05), (''block_author_score'', PNum 0.20), (''reply_score'', PNum 0.4)]))
        ''quote_score'') = Some ''worse''"
proof -
  let ?O = "[(''report_score'', PNum 0.20), (''block_author_score'', PNum 0.05), (''reply_score'', PNum 0.3)]"
  let ?C = "[(''report_score'', PNum 0.05), (''block_author_score'', PNum 0.20), (''reply_score'', PNum 0.4)]"
  let ?p = "\<lambda>a. if a = ''report_score'' then 0.20 else if a = ''block_author_score'' then 0.05
                else if a = ''reply_score'' then 0.3 else (0::rat)"
  let ?q = "\<lambda>a. if a = ''report_score'' then 0.05 else if a = ''block_author_score'' then 0.20
                else if a = ''reply_score'' then 0.4 else (0::rat)"
  have hp: "\<And>a. a \<in> set ACTIONS \<Longrightarrow> num_of (dict_get ?O a (PNum 0)) = Some (?p a)"
    by (simp add: dict_get_def)
  have hq: "\<And>a. a \<in> set ACTIONS \<Longrightarrow> num_of (dict_get ?C a (PNum 0)) = Some (?q a)"
    by (simp add: dict_get_def)
  from direction_from_unrounded_delta[of ?O ?p ?C ?q, OF hp hq] obtain res where
    res: "compute_delta ?O ?C = Inr res" and
    ent: "\<forall>a \<in> set ACTIONS. \<exists>e. map_of res a = Some e
          \<and> (a \<notin> set NEGATIVE_ACTIONS \<longrightarrow>
                (direction e = ''improved'') = (0 < spec_delta (?p a) (?q a)))
          \<and> (a \<in> set NEGATIVE_ACTIONS \<longrightarrow>
                (direction e = ''improved'') = (spec_delta (?p a) (?q a) < 0))
          \<and> (direction e \<noteq> ''improved'' \<longrightarrow> direction e = ''worse'')
          \<and> (spec_delta (?p a) (?q a) = 0 \<longrightarrow> direction e = ''worse'')"
    by blast
  have m: "''report_score'' \<in> set ACTIONS" "''block_author_score'' \<in> set ACTIONS"
          "''reply_score'' \<in> set ACTIONS" "''quote_score'' \<in> set ACTIONS"
    by (simp_all add: ACTIONS_eq)
  have n: "''report_score'' \<in> set NEGATIVE_ACTIONS" "''block_author_score'' \<in> set NEGATIVE_ACTIONS"
          "''reply_score'' \<notin> set NEGATIVE_ACTIONS"
    by (simp_all add: NEGATIVE_ACTIONS_eq)
  from ent m(1) n(1) obtain e1 where e1: "map_of res ''report_score'' = Some e1"
      "direction e1 = ''improved''"
    by (fastforce simp: spec_delta_def)
  from ent m(2) n(2) obtain e2 where e2: "map_of res ''block_author_score'' = Some e2"
      "direction e2 = ''worse''"
    by (fastforce simp: spec_delta_def)
  from ent m(3) n(3) obtain e3 where e3: "map_of res ''reply_score'' = Some e3"
      "direction e3 = ''improved''"
    by (fastforce simp: spec_delta_def)
  from ent m(4) obtain e4 where e4: "map_of res ''quote_score'' = Some e4"
      "direction e4 = ''worse''"
    by (fastforce simp: spec_delta_def)
  show ?thesis
    using res e1 e2 e3 e4 by simp
qed

section \<open>Rounded delta, unrounded direction\<close>





section \<open>Comparing a feature record with its own estimate\<close>

lemma inv_20: "\<exists>x::rat. x * 20 = 1"
  by (rule exI[of _ "1 / 20"]) simp

lemma inv_50: "\<exists>x::rat. x * 50 = 1"
  by (rule exI[of _ "1 / 50"]) simp

lemma score_tweet_numeric:
  "\<exists>x. num_of (dict_get (score_tweet f) a (PNum 0)) = Some x"
  by (simp add: score_tweet_def dict_get_def inv_20 inv_50)

lemma spec_delta_same [simp]: "spec_delta x x = 0"
  by (simp add: spec_delta_def)

lemma compute_weighted_score_numeric:
  assumes "\<And>a. a \<in> set ACTIONS \<Longrightarrow> num_of (dict_get v a (PNum 0)) = Some (p a)"
  shows "\<exists>w. compute_weighted_score v m = Inr w"
proof -
  have "weighted_sum v ACTION_WEIGHTS = Inr (\<Sum>(a, w) \<leftarrow> ACTION_WEIGHTS. p a * w)"
    by (rule weighted_sum_numeric) (simp add: weight_keys assms)
  then show ?thesis
    by (simp add: compute_weighted_score_def)
qed

text \<open>
  C5. For every feature record \<open>f\<close>, \<open>comparison_report\<close> of \<open>f\<close> against
  \<open>score_tweet f\<close> returns a report in which every one of the 19 catalog ids has
  \<open>delta_pct = 0.0\<close> and \<open>is_new = False\<close>.
\<close>

theorem round_trip_zero_delta:
  "\<exists>c. comparison_report f (score_tweet f) m = Inr c
     \<and> (\<forall>a \<in> set ACTIONS. \<exists>e. map_of (c_delta c) a = Some e \<and> delta_pct e = 0.0 \<and> \<not> is_new e)"
proof -
  obtain p where p: "\<And>a. num_of (dict_get (score_tweet f) a (PNum 0)) = Some (p a)"
    using score_tweet_numeric by metis
  obtain w where w: "compute_weighted_score (score_tweet f) m = Inr w"
    using compute_weighted_score_numeric[of "score_tweet f" p m] p by blast
  obtain res where res: "compute_delta (score_tweet f) (score_tweet f) = Inr res" and
    ent: "\<And>a. a \<in> set ACTIONS \<Longrightarrow> \<exists>e. map_of res a = Some e
          \<and> delta_pct e = py_round 1 (spec_delta (p a) (p a))
          \<and> is_new e = (p a = 0 \<and> 0 < p a)"
    using compute_delta_numeric[of "score_tweet f" p "score_tweet f" p] p by blast
  have "\<exists>e. map_of res a = Some e \<and> delta_pct e = 0.0 \<and> \<not> is_new e" if "a \<in> set ACTIONS" for a
    using ent[OF that] by auto
  then show ?thesis
    using w res by (simp add: comparison_report_def full_score_report_def)
qed

text \<open>The entry of \<open>reply\<close> for the features of the specification's example text.\<close>

theorem round_trip_zero_delta_witness:
  "map_option delta_pct
     (map_of (c_delta (projr (comparison_report
        \<lparr> char_count = 41, char_utilization = 14.6, word_count = 9,
          line_count = 1, first_line = cp ''Is AI going to replace your job? Thread '' @ [0x1F9F5],
          has_hook = True, has_question = True,
          question_count = 1, hashtag_count = 0, hashtags = [], has_url = False,
          has_media = False, lang = ''en'', has_cta = False, cta_count = 0,
          power_word_count = 1, power_words_found = [cp ''thread''], has_numbers = False,
          has_list_format = False, emoji_count = 1 \<rparr>
        (score_tweet \<lparr> char_count = 41, char_utilization = 14.6, word_count = 9,
          line_count = 1, first_line = cp ''Is AI going to replace your job? Thread '' @ [0x1F9F5],
          has_hook = True, has_question = True,
          question_count = 1, hashtag_count = 0, hashtags = [], has_url = False,
          has_media = False, lang = ''en'', has_cta = False, cta_count = 0,
          power_word_count = 1, power_words_found = [cp ''thread''], has_numbers = False,
          has_list_format = False, emoji_count = 1 \<rparr>) False))) ''reply_score'') = Some 0.0
   \<and> map_option is_new
     (map_of (c_delta (projr (comparison_report
        \<lparr> char_count = 41, char_utilization = 14.6, word_count = 9,
          line_count = 1, first_line = cp ''Is AI going to replace your job? Thread '' @ [0x1F9F5],
          has_hook = True, has_question = True,
          question_count = 1, hashtag_count = 0, hashtags = [], has_url = False,
          has_media = False, lang = ''en'', has_cta = False, cta_count = 0,
          power_word_count = 1, power_words_found = [cp ''thread''], has_numbers = False,
          has_list_format = False, emoji_count = 1 \<rparr>
        (score_tweet \<lparr> char_count = 41, char_utilization = 14.6, word_count = 9,
          line_count = 1, first_line = cp ''Is AI going to replace your job? Thread '' @ [0x1F9F5],
          has_hook = True, has_question = True,
          question_count = 1, hashtag_count = 0, hashtags = [], has_url = False,
          has_media = False, lang = ''en'', has_cta = False, cta_count = 0,
          power_word_count = 1, power_words_found = [cp ''thread''], has_numbers = False,
          has_list_format = False, emoji_count = 1 \<rparr>) False))) ''reply_score'') = Some False"
proof -
  let ?F = "\<lparr> char_count = 41, char_utilization = 14.6, word_count = 9,
          line_count = 1, first_line = cp ''Is AI going to replace your job? Thread '' @ [0x1F9F5],
          has_hook = True, has_question = True,
          question_count = 1, hashtag_count = 0, hashtags = [], has_url = False,
          has_media = False, lang = ''en'', has_cta = False, cta_count = 0,
          power_word_count = 1, power_words_found = [cp ''thread''], has_numbers = False,
          has_list_format = False, emoji_count = 1 \<rparr>"
  from round_trip_zero_delta[of ?F False] obtain c where
    c: "comparison_report ?F (score_tweet ?F) False = Inr c" and
    ent: "\<forall>a \<in> set ACTIONS. \<exists>e. map_of (c_delta c) a = Some e \<and> delta_pct e = 0.0 \<and> \<not> is_new e"
    by blast
  have "''reply_score'' \<in> set ACTIONS"
    by (simp add: ACTIONS_eq)
  with ent obtain e where "map_of (c_delta c) ''reply_score'' = Some e" "delta_pct e = 0.0" "\<not> is_new e"
    by blast
  with c show ?thesis
    by simp
qed

section \<open>The end-to-end example\<close>

lemma ex_eq: "example_text = [73, 115, 32, 65, 73, 32, 103, 111, 105, 110, 103, 32, 116, 111, 32, 114, 101, 112, 108, 97, 99, 101, 32, 121, 111, 117, 114, 32, 106, 111, 98, 63, 32, 84, 104, 114, 101, 97, 100, 32, 0x1F9F5]"
  by (simp add: example_text_def cp_def)

lemma ex_lower: "lower basic_rt example_text = [105, 115, 32, 97, 105, 32, 103, 111, 105, 110, 103, 32, 116, 111, 32, 114, 101, 112, 108, 97, 99, 101, 32, 121, 111, 117, 114, 32, 106, 111, 98, 63, 32, 116, 104, 114, 101, 97, 100, 32, 0x1F9F5]"
  by (simp add: ex_eq basic_rt_def basic_lower_def)

lemma ex_strip: "strip basic_rt example_text = example_text"
  by (simp add: ex_eq strip_def basic_rt_def basic_isspace_def)

lemma ex_split: "split_on 0x0A example_text = [example_text]"
  by (simp add: ex_eq)

lemma ex_not_tr: "\<not> (\<exists>c \<in> set example_text. c \<in> set TR_CHARS)"
  by (simp add: ex_eq TR_CHARS_def)

lemmas ws_simps = cp_def word_search_def lit_at_def boundary_def word_at_def nth_opt_def
  basic_rt_def basic_isword_def

lemma ex_trWords: "filter (\<lambda>w. word_search basic_rt w (lower basic_rt example_text)) trWords = []"
  unfolding ex_lower by (simp add: trWords_def ws_simps)

lemma ex_lang: "detect_language basic_rt example_text = ''en''"
  using ex_not_tr by (simp add: detect_language_def ex_trWords)

lemma ex_cta: "filter (\<lambda>p. word_search basic_rt p (lower basic_rt example_text)) CTA_PATTERNS_EN = []"
  unfolding ex_lower by (simp add: CTA_PATTERNS_EN_def ws_simps)

lemma ex_power: "filter (\<lambda>w. contains (lower basic_rt example_text) w) POWER_WORDS_EN = [cp ''thread'']"
  unfolding ex_lower by (simp add: POWER_WORDS_EN_def cp_def)

lemma ex_hook: "\<not> (\<exists>h \<in> set hook_indicators. endswith example_text h) \<and> length example_text < 60"
  by (simp add: ex_eq hook_indicators_def endswith_def cp_def)

lemma ex_list: "\<not> list_item basic_rt example_text"
  by (simp add: ex_eq list_marker_def basic_rt_def basic_isdigit_def basic_isspace_def)

lemma ex_tags: "findall_tags basic_rt Idle example_text = []"
  by (simp add: ex_eq restart_def)

lemma ex_url: "\<not> url_search basic_rt example_text"
  by (simp add: ex_eq url_at_def cp_def)

lemma ex_digits: "\<not> (\<exists>c \<in> set example_text. isdigit basic_rt c)"
  by (simp add: ex_eq basic_rt_def basic_isdigit_def)

lemma ex_emoji: "filter is_emoji example_text = [0x1F9F5]"
  by (simp add: ex_eq is_emoji_def)

lemma ex_questions: "filter (\<lambda>c. c = 0x3F) example_text = [0x3F]"
  by (simp add: ex_eq)

lemma ex_words: "length (split_ws basic_rt example_text []) = 9"
  by (simp add: ex_eq basic_rt_def basic_isspace_def)

lemma ex_len: "length example_text = 41"
  by (simp add: ex_eq)

lemma ex_nonempty: "example_text \<noteq> []"
  by (simp add: ex_eq)

lemma ex_util: "utilization 41 (PNum 280) = Inr 14.6"
proof -
  have "py_round 1 (41 / 280 * 100) = 14.6" by code_simp
  then show ?thesis by (simp add: utilization_def)
qed

lemma ex_features:
  "build_features basic_rt example_text False (PNum 280)
     = Inr \<lparr> char_count = 41, char_utilization = 14.6, word_count = 9, line_count = 1,
             first_line = example_text,
             has_hook = True, has_question = True, question_count = 1,
             hashtag_count = 0, hashtags = [], has_url = False, has_media = False,
             lang = ''en'', has_cta = False, cta_count = 0,
             power_word_count = 1, power_words_found = [cp ''thread''],
             has_numbers = False, has_list_format = False, emoji_count = 1 \<rparr>"
  using ex_hook ex_not_tr ex_digits ex_list ex_url
  by (simp add: build_features_def Let_def ex_split ex_strip ex_lang ex_cta ex_power
        ex_tags ex_emoji ex_questions ex_words ex_len ex_util ex_nonempty)

lemma ex_config:
  "get_max_chars (Parsed [(''optimization'', YDict [(''max_chars'', PNum 280)])])
       \<lparr> config_cache = None, io_log = [] \<rparr>
     = (Inr (PNum 280),
        \<lparr> config_cache = Some
            [(''optimization'', YDict [(''max_chars'', PNum 280), (''variations'', PNum 3),
                                       (''style'', POther), (''lang'', POther)]),
             (''claude'', YDict [(''timeout'', PNum 120), (''output_format'', POther)]),
             (''display'', YDict [(''bar_width'', PNum 24), (''show_all_signals'', PBool False),
                                  (''top_signals_count'', PNum 8)])],
          io_log = [OpenConfigFile] \<rparr>)"
  by (simp add: get_max_chars_def load_config_def DEFAULT_CONFIG_def set_item_def
        setdefault_def dict_get_def)


text \<open>
  C6 (amended). For the example text, without media and with \<open>max_chars = 280\<close>
  configured, \<open>analyze\<close> detects the language \<open>en\<close>, a hook, one question, no call
  to action, one line, and one power word (\<open>thread\<close> occurs in the lowered text); the
  estimator's \<open>reply\<close> is the base 0.10 plus the question bonus 0.15 plus the
  power-word bonus 0.08, that is 0.33.
\<close>

theorem example_end_to_end:
  "fst (analyze basic_rt (Parsed [(''optimization'', YDict [(''max_chars'', PNum 280)])])
          example_text False \<lparr> config_cache = None, io_log = [] \<rparr>)
     = Inr \<lparr> char_count = 41, char_utilization = 14.6, word_count = 9, line_count = 1,
             first_line = example_text,
             has_hook = True, has_question = True, question_count = 1,
             hashtag_count = 0, hashtags = [], has_url = False, has_media = False,
             lang = ''en'', has_cta = False, cta_count = 0,
             power_word_count = 1, power_words_found = [cp ''thread''],
             has_numbers = False, has_list_format = False, emoji_count = 1 \<rparr>
   \<and> dict_get (score_tweet (projr (fst (analyze basic_rt
            (Parsed [(''optimization'', YDict [(''max_chars'', PNum 280)])])
            example_text False \<lparr> config_cache = None, io_log = [] \<rparr>))))
         ''reply_score'' (PNum 0)
     = PNum (0.10 + 0.15 + 0.08)"
  by (simp add: analyze_def ex_config ex_features score_tweet_def dict_get_def
        base_reply_def clamp_def)

text \<open>C6 as stated fails: the \<open>reply\<close> score of the example is not 0.25.\<close>

theorem example_reply_score_counterexample:
  "dict_get (score_tweet (projr (fst (analyze basic_rt
            (Parsed [(''optimization'', YDict [(''max_chars'', PNum 280)])])
            example_text False \<lparr> config_cache = None, io_log = [] \<rparr>))))
         ''reply_score'' (PNum 0)
     \<noteq> PNum 0.25"
  by (simp add: analyze_def ex_config ex_features score_tweet_def dict_get_def
        base_reply_def clamp_def)

section \<open>Empty and whitespace-only text\<close>


lemma strip_Nil [simp]: "strip U [] = []"
  by (simp add: strip_def)








section \<open>Determinism and the configuration read\<close>








section \<open>Validation of an external signal vector\<close>














end
